theory Spec2Isabelle
  imports Main "HOL-Library.Sublist"
begin

section \<open>Values, exceptions and the world outside the program\<close>

text \<open>
  The values \<^verbatim>\<open>json.loads\<close> can return: None, a bool, an int, a float (held by its
  literal), a str, a list, or a dict (an association list, looked up with \<open>map_of\<close>).
  The intent and urgency that \<^verbatim>\<open>classify\<close> returns are such values: the source
  returns \<^verbatim>\<open>result["intent"]\<close> as it is, whatever its type.
\<close>

datatype json =
    JNull
  | JBool bool
  | JInt int
  | JFloat string
  | JString string
  | JArray "json list"
  | JObject "(string \<times> json) list"

text \<open>
  Exceptions, all of them instances of Python's \<^verbatim>\<open>Exception\<close>: \<open>Raised\<close> is one raised
  outside this repository (by the backend client or by \<^verbatim>\<open>json.loads\<close>), by its message;
  \<open>KeyError\<close> and \<open>TypeError\<close> are the ones that subscripting a value with a string key
  raises.
\<close>

datatype exception =
    Raised string
  | KeyError string
  | TypeError json

record GenerateContentConfig =
  response_mime_type :: string
  response_schema :: json

record request =
  model :: string
  contents :: string
  config :: "GenerateContentConfig option"

text \<open>
  What the program calls and does not define. \<open>generate_content\<close> is the backend: given
  the requests it has received so far and a new request, it raises or returns the text of
  its response; quantifying over this function covers every behaviour of the backend in
  a run, also one that changes from call to call. \<open>json_loads\<close> is \<^verbatim>\<open>json.loads\<close>,
  \<open>now_isoformat n\<close> is what the \<open>n\<close>-th reading of \<^verbatim>\<open>datetime.now().isoformat()\<close>
  gives, and \<open>str_other\<close> is Python's \<^verbatim>\<open>str\<close> on a value that is not a string.
\<close>

record env =
  generate_content :: "request list \<Rightarrow> request \<Rightarrow> exception + string"
  json_loads :: "string \<Rightarrow> exception + json"
  now_isoformat :: "nat \<Rightarrow> string"
  str_other :: "json \<Rightarrow> string"

text \<open>
  The state outside the objects of the program: the requests sent to the backend (oldest
  first), the number of clock readings, and what was printed, each line held as the fixed
  text and the exception formatted after it.
\<close>

record world =
  requests :: "request list"
  clock_reads :: nat
  stdout :: "(string \<times> exception) list"

definition call_generate_content ::
  "env \<Rightarrow> request \<Rightarrow> world \<Rightarrow> (exception + string) \<times> world" where
  "call_generate_content e req w =
     (generate_content e (requests w) req, w\<lparr>requests := requests w @ [req]\<rparr>)"

definition datetime_now_isoformat :: "env \<Rightarrow> world \<Rightarrow> string \<times> world" where
  "datetime_now_isoformat e w =
     (now_isoformat e (clock_reads w), w\<lparr>clock_reads := Suc (clock_reads w)\<rparr>)"

definition print :: "string \<Rightarrow> exception \<Rightarrow> world \<Rightarrow> world" where
  "print label ex w = w\<lparr>stdout := stdout w @ [(label, ex)]\<rparr>"

text \<open>\<^verbatim>\<open>f"{v}"\<close>: a string is inserted as it is, any other value through \<^verbatim>\<open>str\<close>.\<close>

fun format_value :: "env \<Rightarrow> json \<Rightarrow> string" where
  "format_value e (JString s) = s"
| "format_value e v = str_other e v"

text \<open>
  \<^verbatim>\<open>v[k]\<close> with a string key: a dict gives the value or raises KeyError; every other
  value raises TypeError (a list and a str want integer indices, the rest are not
  subscriptable).
\<close>

fun getitem :: "json \<Rightarrow> string \<Rightarrow> exception + json" where
  "getitem (JObject kvs) k =
     (case map_of kvs k of Some v \<Rightarrow> Inr v | None \<Rightarrow> Inl (KeyError k))"
| "getitem v k = Inl (TypeError v)"

text \<open>
  \<^verbatim>\<open>xs[start:]\<close>: a negative start counts from the end and is clamped at 0, a
  non-negative one is clamped at the length.
\<close>

definition slice_from :: "int \<Rightarrow> 'a list \<Rightarrow> 'a list" where
  "slice_from start xs =
     (let n = int (length xs);
          i = (if start < 0 then max (start + n) 0 else min start n)
      in drop (nat i) xs)"

section \<open>Memory\<close>

text \<open>A message is the dict with the keys role, content and time that \<open>add\<close> builds.\<close>

record turn =
  role :: string
  content :: string
  time :: string

record Memory =
  messages :: "turn list"
  max_history :: int

text \<open>\<^verbatim>\<open>Memory()\<close>: the defaults of the dataclass.\<close>

definition Memory_init :: Memory where
  "Memory_init = \<lparr>messages = [], max_history = 20\<rparr>"

definition add :: "env \<Rightarrow> string \<Rightarrow> string \<Rightarrow> Memory \<times> world \<Rightarrow> Memory \<times> world" where
  "add e r c s =
     (let (mem, w) = s;
          (t, w1) = datetime_now_isoformat e w;
          appended = messages mem @ [\<lparr>role = r, content = c, time = t\<rparr>]
      in if int (length appended) > max_history mem
         then (mem\<lparr>messages := slice_from (- max_history mem) appended\<rparr>, w1)
         else (mem\<lparr>messages := appended\<rparr>, w1))"

text \<open>The loop of \<open>get_context\<close>, with \<open>out\<close> as its accumulator.\<close>

fun get_context_loop :: "string \<Rightarrow> turn list \<Rightarrow> string" where
  "get_context_loop out [] = out"
| "get_context_loop out (m # ms) =
     get_context_loop (out @ role m @ '': '' @ content m @ ''\<newline>'') ms"

text \<open>
  \<open>get_context\<close> is a method of the mutable object, so it returns the memory it leaves
  behind beside its result.
\<close>

definition get_context :: "Memory \<Rightarrow> string \<times> Memory" where
  "get_context mem = (get_context_loop [] (slice_from (- 5) (messages mem)), mem)"

section \<open>The two agents\<close>

text \<open>The prompt of \<open>classify\<close>: the f-string, line by line.\<close>

definition classify_prompt :: "string \<Rightarrow> string" where
  "classify_prompt message =
     ''\<newline>''
     @ ''        Analyze the user message below and classify its intent into one of the following categories:\<newline>''
     @ ''        'refund', 'cancellation', 'billing', 'general_help', 'general'.\<newline>''
     @ ''        Also, assign an urgency level: 'low', 'medium', 'high'.\<newline>''
     @ ''        Format your response as a single JSON object with keys 'intent' and 'urgency'.\<newline>''
     @ ''        Message: '' @ [CHR 0x22] @ message @ [CHR 0x22] @ ''\<newline>''
     @ ''        ''"

definition classify_config :: GenerateContentConfig where
  "classify_config =
     \<lparr>response_mime_type = ''application/json'',
      response_schema = JObject
        [(''type'', JString ''object''),
         (''properties'', JObject
            [(''intent'', JObject [(''type'', JString ''string'')]),
             (''urgency'', JObject [(''type'', JString ''string'')])]),
         (''required'', JArray [JString ''intent'', JString ''urgency''])]\<rparr>"

definition classify_request :: "string \<Rightarrow> request" where
  "classify_request message =
     \<lparr>model = ''gemini-2.5-flash'', contents = classify_prompt message,
      config = Some classify_config\<rparr>"

text \<open>
  The body of the \<^verbatim>\<open>try\<close> of \<open>classify\<close>: the call, \<^verbatim>\<open>json.loads\<close> on the text of the
  response, then the two subscripts, left to right. Each of the four can raise.
\<close>

definition classify_try ::
  "env \<Rightarrow> string \<Rightarrow> world \<Rightarrow> (exception + json \<times> json) \<times> world" where
  "classify_try e message w =
     (let (response, w1) = call_generate_content e (classify_request message) w
      in (case response of
            Inl ex \<Rightarrow> Inl ex
          | Inr text \<Rightarrow>
              (case json_loads e text of
                 Inl ex \<Rightarrow> Inl ex
               | Inr result \<Rightarrow>
                   (case getitem result ''intent'' of
                      Inl ex \<Rightarrow> Inl ex
                    | Inr intent \<Rightarrow>
                        (case getitem result ''urgency'' of
                           Inl ex \<Rightarrow> Inl ex
                         | Inr urgency \<Rightarrow> Inr (intent, urgency)))),
          w1))"

text \<open>\<open>classify\<close>: the \<^verbatim>\<open>except Exception\<close> prints and returns the pair "error", "low".\<close>

definition classify :: "env \<Rightarrow> string \<Rightarrow> world \<Rightarrow> (json \<times> json) \<times> world" where
  "classify e message w =
     (case classify_try e message w of
        (Inr result, w1) \<Rightarrow> (result, w1)
      | (Inl ex, w1) \<Rightarrow>
          ((JString ''error'', JString ''low''),
           print ''API Error during intent classification: '' ex w1))"

text \<open>The prompt of \<open>create_reply\<close>; the source does not put the message into it.\<close>

definition reply_prompt :: "env \<Rightarrow> json \<Rightarrow> json \<Rightarrow> string \<Rightarrow> string" where
  "reply_prompt e intent urgency context =
     ''\<newline>''
     @ ''        You are a helpful and polite customer support agent.\<newline>''
     @ ''        The user's current intent is classified as '' @ [CHR 0x27]
     @ format_value e intent @ [CHR 0x27] @ '' with '' @ [CHR 0x27]
     @ format_value e urgency @ [CHR 0x27] @ '' urgency.\<newline>''
     @ ''        Here is the recent conversation history:\<newline>''
     @ ''        ---\<newline>''
     @ ''        '' @ context @ ''\<newline>''
     @ ''        ---\<newline>''
     @ ''        Based only on the above context and the most recent user message, write a concise, professional reply.\<newline>''
     @ ''        If you need more information (like an order ID or email), politely ask for it.\<newline>''
     @ ''        ''"

definition reply_request :: "env \<Rightarrow> json \<Rightarrow> json \<Rightarrow> string \<Rightarrow> request" where
  "reply_request e intent urgency context =
     \<lparr>model = ''gemini-2.5-flash'', contents = reply_prompt e intent urgency context,
      config = None\<rparr>"

definition fallback_reply :: string where
  "fallback_reply = ''Sorry, I am having trouble connecting to my services right now.''"

definition create_reply ::
  "env \<Rightarrow> string \<Rightarrow> json \<Rightarrow> json \<Rightarrow> string \<Rightarrow> world \<Rightarrow> string \<times> world" where
  "create_reply e message intent urgency context w =
     (case call_generate_content e (reply_request e intent urgency context) w of
        (Inr text, w1) \<Rightarrow> (text, w1)
      | (Inl ex, w1) \<Rightarrow>
          (fallback_reply, print ''API Error during reply generation: '' ex w1))"

section \<open>The coordinator\<close>

text \<open>
  The coordinator owns one memory; its two agents hold only the client, which is the
  environment here. \<open>LLMCoordinator_init\<close> is the memory its constructor builds. The
  result of \<open>ask\<close> is the dict it returns, in insertion order, and the state it leaves.
\<close>

definition LLMCoordinator_init :: Memory where
  "LLMCoordinator_init = Memory_init"

definition ask ::
  "env \<Rightarrow> string \<Rightarrow> Memory \<times> world \<Rightarrow> (string \<times> json) list \<times> (Memory \<times> world)" where
  "ask e message s =
     (let (mem1, w1) = add e ''user'' message s;
          ((intent, urgency), w2) = classify e message w1;
          (context, mem2) = get_context mem1;
          (reply, w3) = create_reply e message intent urgency context w2;
          final_output =
            [(''intent'', intent), (''urgency'', urgency), (''reply'', JString reply)];
          s4 = add e ''agent'' reply (mem2, w3)
      in (final_output, s4))"

text \<open>
  A sequence of calls of \<open>ask\<close>, one per message, as the loop of the example driver makes
  them: the results in order, and the final state.
\<close>

fun ask_all ::
  "env \<Rightarrow> string list \<Rightarrow> Memory \<times> world \<Rightarrow> (string \<times> json) list list \<times> (Memory \<times> world)" where
  "ask_all e [] s = ([], s)"
| "ask_all e (msg # msgs) s =
     (let (out, s1) = ask e msg s;
          (outs, s2) = ask_all e msgs s1
      in (out # outs, s2))"

section \<open>Notions used to state the properties\<close>

text \<open>The last \<open>n\<close> elements of a list, all of it when it has fewer.\<close>

definition keep_last :: "nat \<Rightarrow> 'a list \<Rightarrow> 'a list" where
  "keep_last n xs = drop (length xs - n) xs"

text \<open>The text under the key reply of a result of \<open>ask\<close>.\<close>

definition reply_text :: "(string \<times> json) list \<Rightarrow> string" where
  "reply_text out = (case map_of out ''reply'' of Some (JString s) \<Rightarrow> s | _ \<Rightarrow> [])"

text \<open>
  The two turns that one call of \<open>ask\<close> adds when the clock has been read \<open>t\<close> times
  before it, and the turns that a sequence of calls adds, call after call.
\<close>

definition exchange :: "env \<Rightarrow> nat \<Rightarrow> string \<Rightarrow> (string \<times> json) list \<Rightarrow> turn list" where
  "exchange e t msg out =
     [\<lparr>role = ''user'', content = msg, time = now_isoformat e t\<rparr>,
      \<lparr>role = ''agent'', content = reply_text out, time = now_isoformat e (Suc t)\<rparr>]"

definition transcript ::
  "env \<Rightarrow> nat \<Rightarrow> string list \<Rightarrow> (string \<times> json) list list \<Rightarrow> turn list" where
  "transcript e t msgs outs =
     concat (map (\<lambda>i. exchange e (t + 2 * i) (msgs ! i) (outs ! i)) [0..<length msgs])"

text \<open>
  The context as the specification words it: the lines of the last five turns joined by
  newlines, a newline between two lines and none after the last.
\<close>

fun join_newline :: "string list \<Rightarrow> string" where
  "join_newline [] = []"
| "join_newline [l] = l"
| "join_newline (l # ls) = l @ ''\<newline>'' @ join_newline ls"

definition spec_get_context :: "Memory \<Rightarrow> string" where
  "spec_get_context mem =
     join_newline (map (\<lambda>m. role m @ '': '' @ content m) (keep_last 5 (messages mem)))"

section \<open>Concrete environments and states\<close>

text \<open>
  A backend that raises on every call, one that answers every call, and three whose
  answer to the classification is not the object asked for.
\<close>

definition env_down :: env where
  "env_down =
     \<lparr>generate_content = (\<lambda>h r. Inl (Raised ''unavailable'')),
      json_loads = (\<lambda>s. Inl (Raised ''not JSON'')),
      now_isoformat = (\<lambda>n. ''t''),
      str_other = (\<lambda>v. ''?'')\<rparr>"

definition env_ok :: env where
  "env_ok =
     \<lparr>generate_content = (\<lambda>h r. Inr ''ok''),
      json_loads = (\<lambda>s. Inr (JObject
         [(''intent'', JString ''general_help''), (''urgency'', JString ''low'')])),
      now_isoformat = (\<lambda>n. ''t''),
      str_other = (\<lambda>v. ''?'')\<rparr>"

definition env_bad_json :: env where
  "env_bad_json = env_ok\<lparr>json_loads := (\<lambda>s. Inl (Raised ''not JSON''))\<rparr>"

definition env_no_urgency :: env where
  "env_no_urgency =
     env_ok\<lparr>json_loads := (\<lambda>s. Inr (JObject [(''intent'', JString ''billing'')]))\<rparr>"

definition env_not_dict :: env where
  "env_not_dict = env_ok\<lparr>json_loads := (\<lambda>s. Inr (JArray []))\<rparr>"

definition world_init :: world where
  "world_init = \<lparr>requests = [], clock_reads = 0, stdout = []\<rparr>"

definition msgs11 :: "string list" where
  "msgs11 =
     [''m1'', ''m2'', ''m3'', ''m4'', ''m5'', ''m6'', ''m7'', ''m8'', ''m9'', ''m10'', ''m11'']"

definition run11 :: "(string \<times> json) list list \<times> (Memory \<times> world)" where
  "run11 = ask_all env_down msgs11 (LLMCoordinator_init, world_init)"

definition mem_one :: Memory where
  "mem_one =
     \<lparr>messages = [\<lparr>role = ''user'', content = ''hi'', time = ''t''\<rparr>], max_history = 20\<rparr>"

text \<open>\<^verbatim>\<open>Memory(max_history=0)\<close>.\<close>

definition mem_zero :: Memory where
  "mem_zero = \<lparr>messages = [], max_history = 0\<rparr>"

section \<open>Slices and the bounded list\<close>

lemma slice_from_neg: "0 < k \<Longrightarrow> slice_from (- k) xs = keep_last (nat k) xs"
  by (auto simp: slice_from_def keep_last_def Let_def max_def intro!: arg_cong2[where f = drop])

lemma slice_from_zero: "slice_from 0 xs = xs"
  by (simp add: slice_from_def)

lemma keep_last_all: "length xs \<le> n \<Longrightarrow> keep_last n xs = xs"
  by (simp add: keep_last_def)

lemma length_keep_last: "length (keep_last n xs) = min n (length xs)"
  by (simp add: keep_last_def)

lemma keep_last_append: "keep_last n (keep_last n xs @ ys) = keep_last n (xs @ ys)"
  by (auto simp: keep_last_def intro!: arg_cong2[where f = drop])

lemma keep_last_append_short:
  "length ys \<le> n \<Longrightarrow> keep_last n (xs @ ys) = keep_last (n - length ys) xs @ ys"
  by (auto simp: keep_last_def intro!: arg_cong2[where f = drop])

section \<open>Facts about the memory\<close>

lemma add_max_history: "max_history (fst (add e r c (mem, w))) = max_history mem"
  by (simp add: add_def Let_def datetime_now_isoformat_def)

lemma add_world: "snd (add e r c (mem, w)) = w\<lparr>clock_reads := Suc (clock_reads w)\<rparr>"
  by (simp add: add_def Let_def datetime_now_isoformat_def)

lemma add_requests_pair: "requests (snd (add e r c s)) = requests (snd s)"
  by (cases s) (simp add: add_world)

text \<open>With a bound of at least one, \<open>add\<close> keeps the last \<open>max_history\<close> turns.\<close>

lemma add_messages:
  "1 \<le> max_history mem \<Longrightarrow>
   messages (fst (add e r c (mem, w))) =
     keep_last (nat (max_history mem))
       (messages mem @ [\<lparr>role = r, content = c, time = now_isoformat e (clock_reads w)\<rparr>])"
  by (auto simp: add_def Let_def datetime_now_isoformat_def slice_from_neg keep_last_all)

lemma add_invariant:
  "1 \<le> max_history mem \<Longrightarrow>
   int (length (messages (fst (add e r c (mem, w))))) \<le> max_history (fst (add e r c (mem, w)))"
  by (simp add: add_messages add_max_history length_keep_last)

lemma add_keeps_new_turn:
  assumes "0 \<le> max_history mem"
  shows "\<exists>older. messages (fst (add e r c (mem, w))) =
     older @ [\<lparr>role = r, content = c, time = now_isoformat e (clock_reads w)\<rparr>]"
proof (cases "max_history mem = 0")
  case True
  then show ?thesis
    by (simp add: add_def Let_def datetime_now_isoformat_def slice_from_zero)
next
  case False
  with assms have "1 \<le> max_history mem" by simp
  then show ?thesis
    by (simp add: add_messages keep_last_append_short)
qed

lemma get_context_loop_concat:
  "get_context_loop out ms =
     out @ concat (map (\<lambda>m. role m @ '': '' @ content m @ ''\<newline>'') ms)"
  by (induction ms arbitrary: out) simp_all

lemma get_context_render:
  "fst (get_context mem) =
     concat (map (\<lambda>m. role m @ '': '' @ content m @ ''\<newline>'')
       (keep_last 5 (messages mem)))"
  using slice_from_neg[of 5 "messages mem"]
  by (simp add: get_context_def get_context_loop_concat)

section \<open>Facts about the agents\<close>

lemma classify_world:
  "snd (classify e message w) = w' \<Longrightarrow> clock_reads w' = clock_reads w"
  by (auto simp: classify_def classify_try_def call_generate_content_def print_def Let_def
      split: sum.splits prod.splits)

lemma classify_requests:
  "requests (snd (classify e message w)) = requests w @ [classify_request message]"
  by (auto simp: classify_def classify_try_def call_generate_content_def print_def
      split: sum.splits)

lemma classify_raise:
  "generate_content e (requests w) (classify_request message) = Inl ex \<Longrightarrow>
   fst (classify e message w) = (JString ''error'', JString ''low'')"
  by (simp add: classify_def classify_try_def call_generate_content_def)

lemma classify_bad_json:
  "generate_content e (requests w) (classify_request message) = Inr body \<Longrightarrow>
   json_loads e body = Inl ex \<Longrightarrow>
   fst (classify e message w) = (JString ''error'', JString ''low'')"
  by (simp add: classify_def classify_try_def call_generate_content_def)

lemma classify_getitem_fails:
  "generate_content e (requests w) (classify_request message) = Inr body \<Longrightarrow>
   json_loads e body = Inr result \<Longrightarrow>
   getitem result ''intent'' = Inl ex \<or> getitem result ''urgency'' = Inl ex \<Longrightarrow>
   fst (classify e message w) = (JString ''error'', JString ''low'')"
  by (auto simp: classify_def classify_try_def call_generate_content_def split: sum.splits)

text \<open>When nothing fails, \<open>classify\<close> returns the two values of the parsed object.\<close>

lemma classify_success:
  "generate_content e (requests w) (classify_request message) = Inr body \<Longrightarrow>
   json_loads e body = Inr (JObject kvs) \<Longrightarrow>
   map_of kvs ''intent'' = Some i \<Longrightarrow> map_of kvs ''urgency'' = Some u \<Longrightarrow>
   fst (classify e message w) = (i, u)"
  by (simp add: classify_def classify_try_def call_generate_content_def)

lemma create_reply_world:
  "clock_reads (snd (create_reply e message i u c w)) = clock_reads w"
  by (auto simp: create_reply_def call_generate_content_def print_def
      split: sum.splits prod.splits)

lemma create_reply_requests:
  "requests (snd (create_reply e message i u c w)) = requests w @ [reply_request e i u c]"
  by (auto simp: create_reply_def call_generate_content_def print_def split: sum.splits)

section \<open>Facts about the coordinator\<close>

text \<open>\<open>ask\<close> written out step by step, each step applied to the state the one before left.\<close>

lemma ask_steps:
  "ask e message (mem, w) =
     ([(''intent'', fst (fst (classify e message (snd (add e ''user'' message (mem, w)))))),
       (''urgency'', snd (fst (classify e message (snd (add e ''user'' message (mem, w)))))),
       (''reply'', JString (fst (create_reply e message
          (fst (fst (classify e message (snd (add e ''user'' message (mem, w))))))
          (snd (fst (classify e message (snd (add e ''user'' message (mem, w))))))
          (fst (get_context (fst (add e ''user'' message (mem, w)))))
          (snd (classify e message (snd (add e ''user'' message (mem, w))))))))],
      add e ''agent''
        (fst (create_reply e message
          (fst (fst (classify e message (snd (add e ''user'' message (mem, w))))))
          (snd (fst (classify e message (snd (add e ''user'' message (mem, w))))))
          (fst (get_context (fst (add e ''user'' message (mem, w)))))
          (snd (classify e message (snd (add e ''user'' message (mem, w)))))))
        (fst (add e ''user'' message (mem, w)),
         snd (create_reply e message
          (fst (fst (classify e message (snd (add e ''user'' message (mem, w))))))
          (snd (fst (classify e message (snd (add e ''user'' message (mem, w))))))
          (fst (get_context (fst (add e ''user'' message (mem, w)))))
          (snd (classify e message (snd (add e ''user'' message (mem, w))))))))"
  by (simp add: ask_def Let_def split_beta get_context_def)

lemma ask_output:
  "fst (ask e message (mem, w)) =
     [(''intent'', fst (fst (classify e message (snd (add e ''user'' message (mem, w)))))),
      (''urgency'', snd (fst (classify e message (snd (add e ''user'' message (mem, w)))))),
      (''reply'', JString (reply_text (fst (ask e message (mem, w)))))]"
  by (simp add: ask_def Let_def reply_text_def split: prod.splits)

lemma ask_max_history: "max_history (fst (snd (ask e message (mem, w)))) = max_history mem"
  by (auto simp: ask_def Let_def get_context_def add_max_history split: prod.splits
      dest: arg_cong[where f = "\<lambda>p. max_history (fst p)"])

lemma ask_clock: "clock_reads (snd (snd (ask e message (mem, w)))) = Suc (Suc (clock_reads w))"
proof -
  obtain mem1 w1 where s1: "add e ''user'' message (mem, w) = (mem1, w1)"
    by (cases "add e ''user'' message (mem, w)")
  obtain intent urgency w2 where c: "classify e message w1 = ((intent, urgency), w2)"
    by (cases "classify e message w1") auto
  obtain reply w3 where
    r: "create_reply e message intent urgency (fst (get_context mem1)) w2 = (reply, w3)"
    by (cases "create_reply e message intent urgency (fst (get_context mem1)) w2")
  have a: "snd (ask e message (mem, w)) = add e ''agent'' reply (mem1, w3)"
    using r by (simp add: ask_def Let_def get_context_def s1 c)
  have "clock_reads w1 = Suc (clock_reads w)"
    using add_world[of e "''user''" message mem w] by (simp add: s1)
  moreover have "clock_reads w2 = clock_reads w1"
    using classify_world[of e message w1 w2] by (simp add: c)
  moreover have "clock_reads w3 = clock_reads w2"
    using create_reply_world[of e message intent urgency "fst (get_context mem1)" w2]
    by (simp add: r)
  ultimately show ?thesis
    by (simp add: a add_world)
qed

text \<open>
  With a bound of at least one, a call of \<open>ask\<close> leaves the last \<open>max_history\<close> turns of
  the memory it found followed by the user turn and the agent turn.
\<close>

lemma ask_messages:
  assumes mh: "1 \<le> max_history mem"
  shows "messages (fst (snd (ask e message (mem, w)))) =
     keep_last (nat (max_history mem))
       (messages mem @
        [\<lparr>role = ''user'', content = message, time = now_isoformat e (clock_reads w)\<rparr>,
         \<lparr>role = ''agent'', content = reply_text (fst (ask e message (mem, w))),
          time = now_isoformat e (Suc (clock_reads w))\<rparr>])"
proof -
  obtain mem1 w1 where s1: "add e ''user'' message (mem, w) = (mem1, w1)"
    by (cases "add e ''user'' message (mem, w)")
  obtain intent urgency w2 where c: "classify e message w1 = ((intent, urgency), w2)"
    by (cases "classify e message w1") auto
  obtain reply w3 where
    r: "create_reply e message intent urgency (fst (get_context mem1)) w2 = (reply, w3)"
    by (cases "create_reply e message intent urgency (fst (get_context mem1)) w2")
  have a: "ask e message (mem, w) =
      ([(''intent'', intent), (''urgency'', urgency), (''reply'', JString reply)],
       add e ''agent'' reply (mem1, w3))"
    using r by (simp add: ask_def Let_def get_context_def s1 c)
  have mh1: "max_history mem1 = max_history mem"
    using add_max_history[of e "''user''" message mem w] by (simp add: s1)
  have m1: "messages mem1 = keep_last (nat (max_history mem))
      (messages mem @ [\<lparr>role = ''user'', content = message,
         time = now_isoformat e (clock_reads w)\<rparr>])"
    using add_messages[of mem e "''user''" message w] mh by (simp add: s1)
  have "clock_reads w1 = Suc (clock_reads w)"
    using add_world[of e "''user''" message mem w] by (simp add: s1)
  moreover have "clock_reads w2 = clock_reads w1"
    using classify_world[of e message w1 w2] by (simp add: c)
  moreover have "clock_reads w3 = clock_reads w2"
    using create_reply_world[of e message intent urgency "fst (get_context mem1)" w2]
    by (simp add: r)
  ultimately have t3: "clock_reads w3 = Suc (clock_reads w)" by simp
  have "messages (fst (add e ''agent'' reply (mem1, w3))) =
      keep_last (nat (max_history mem))
        (messages mem1 @ [\<lparr>role = ''agent'', content = reply,
           time = now_isoformat e (Suc (clock_reads w))\<rparr>])"
    using add_messages[of mem1 e "''agent''" reply w3] mh by (simp add: mh1 t3)
  then show ?thesis
    by (simp add: a m1 keep_last_append reply_text_def)
qed

lemma transcript_Nil: "transcript e t [] outs = []"
  by (simp add: transcript_def)

lemma transcript_Cons:
  "transcript e t (msg # msgs) (out # outs) =
     exchange e t msg out @ transcript e (Suc (Suc t)) msgs outs"
  by (simp add: transcript_def map_upt_Suc del: upt_Suc)

lemma length_transcript: "length (transcript e t msgs outs) = 2 * length msgs"
  by (simp add: transcript_def exchange_def length_concat comp_def sum_list_triv)

lemma ask_all_length: "length (fst (ask_all e msgs s)) = length msgs"
  by (induction msgs arbitrary: s) (simp_all add: Let_def split_beta)

lemma ask_all_max_history:
  "max_history (fst (snd (ask_all e msgs (mem, w)))) = max_history mem"
proof (induction msgs arbitrary: mem w)
  case Nil
  show ?case by simp
next
  case (Cons msg msgs)
  obtain out mem1 w1 where a: "ask e msg (mem, w) = (out, (mem1, w1))"
    by (cases "ask e msg (mem, w)") auto
  have "max_history mem1 = max_history mem"
    using ask_max_history[of e msg mem w] by (simp add: a)
  then show ?case
    using Cons.IH[of mem1 w1] by (simp add: a Let_def split_beta)
qed

text \<open>
  With a bound of at least one and a memory within its bound, a sequence of calls leaves
  the last \<open>max_history\<close> turns of everything added so far.
\<close>

lemma ask_all_messages:
  assumes mh: "1 \<le> max_history mem"
    and inv: "int (length (messages mem)) \<le> max_history mem"
  shows "messages (fst (snd (ask_all e msgs (mem, w)))) =
     keep_last (nat (max_history mem))
       (messages mem @ transcript e (clock_reads w) msgs (fst (ask_all e msgs (mem, w))))"
  using mh inv
proof (induction msgs arbitrary: mem w)
  case Nil
  then show ?case by (simp add: transcript_Nil keep_last_def)
next
  case (Cons msg msgs)
  obtain out mem1 w1 where a: "ask e msg (mem, w) = (out, (mem1, w1))"
    by (cases "ask e msg (mem, w)") auto
  obtain outs s2 where b: "ask_all e msgs (mem1, w1) = (outs, s2)"
    by (cases "ask_all e msgs (mem1, w1)")
  have mh1: "max_history mem1 = max_history mem"
    using ask_max_history[of e msg mem w] by (simp add: a)
  have m1: "messages mem1 =
      keep_last (nat (max_history mem)) (messages mem @ exchange e (clock_reads w) msg out)"
    using ask_messages[OF Cons.prems(1), of e msg w] by (simp add: a exchange_def)
  have inv1: "int (length (messages mem1)) \<le> max_history mem1"
    using Cons.prems(1) by (simp add: m1 mh1 length_keep_last)
  have t1: "clock_reads w1 = Suc (Suc (clock_reads w))"
    using ask_clock[of e msg mem w] by (simp add: a)
  have "messages (fst s2) =
      keep_last (nat (max_history mem))
        (messages mem1 @ transcript e (Suc (Suc (clock_reads w))) msgs outs)"
    using Cons.IH[of mem1 w1] Cons.prems(1) inv1 by (simp add: mh1 b t1)
  then show ?case
    by (simp add: a b m1 keep_last_append transcript_Cons)
qed

text \<open>
  With a bound of at least one, \<open>n\<close> calls from an empty memory leave
  \<open>min (2 * n) max_history\<close> turns.
\<close>

lemma ask_all_length_messages:
  assumes "1 \<le> max_history mem" and "messages mem = []"
  shows "int (length (messages (fst (snd (ask_all e msgs (mem, w)))))) =
     min (2 * int (length msgs)) (max_history mem)"
  using assms ask_all_messages[of mem e msgs w]
  by (simp add: length_keep_last length_transcript)

section \<open>The claims\<close>

subsection \<open>C1\<close>

text \<open>
  C1, as amended. With the default bound of 20, eleven calls of \<open>ask\<close> on a fresh
  coordinator leave exactly 20 turns: the user turn and the agent turn of the calls 2
  to 11, in order. The oldest surviving turn is the user turn of the second call, and
  the two turns of the first call are the only ones evicted.
\<close>

theorem eleven_asks_keep_last_ten_exchanges:
  assumes len: "length msgs = 11"
  shows "length (messages (fst (snd (ask_all e msgs (LLMCoordinator_init, w))))) = 20
    \<and> hd (messages (fst (snd (ask_all e msgs (LLMCoordinator_init, w))))) =
        \<lparr>role = ''user'', content = msgs ! 1, time = now_isoformat e (clock_reads w + 2)\<rparr>
    \<and> messages (fst (snd (ask_all e msgs (LLMCoordinator_init, w)))) =
        transcript e (clock_reads w + 2) (tl msgs)
          (tl (fst (ask_all e msgs (LLMCoordinator_init, w))))"
proof -
  define outs where "outs = fst (ask_all e msgs (LLMCoordinator_init, w))"
  define final where "final = messages (fst (snd (ask_all e msgs (LLMCoordinator_init, w))))"
  obtain m1 m2 ms where msgs: "msgs = m1 # m2 # ms"
    using len by (cases msgs; cases "tl msgs") auto
  have "length outs = 11"
    using len by (simp add: outs_def ask_all_length)
  then obtain out1 out2 os where outs: "outs = out1 # out2 # os"
    by (cases outs; cases "tl outs") auto
  have "final = keep_last 20 (transcript e (clock_reads w) msgs outs)"
    using ask_all_messages[of LLMCoordinator_init e msgs w]
    by (simp add: final_def outs_def LLMCoordinator_init_def Memory_init_def)
  also have "\<dots> = transcript e (Suc (Suc (clock_reads w))) (m2 # ms) (out2 # os)"
    using len
    by (simp add: msgs outs transcript_Cons keep_last_def length_transcript exchange_def)
  finally have eq: "final = transcript e (Suc (Suc (clock_reads w))) (m2 # ms) (out2 # os)" .
  have "length final = 20"
    using len by (simp add: eq length_transcript msgs)
  moreover have "hd final =
      \<lparr>role = ''user'', content = msgs ! 1, time = now_isoformat e (clock_reads w + 2)\<rparr>"
    by (simp add: eq transcript_Cons exchange_def msgs)
  moreover have "final = transcript e (clock_reads w + 2) (tl msgs) (tl outs)"
    by (simp add: eq msgs outs)
  ultimately show ?thesis
    unfolding final_def outs_def by blast
qed

text \<open>
  Witness of C1: eleven distinct messages sent to a coordinator whose backend is down;
  the oldest turn left is the user turn of the second message.
\<close>

theorem eleven_asks_keep_last_ten_exchanges_witness:
  "length msgs11 = 11
   \<and> length (messages (fst (snd run11))) = 20
   \<and> hd (messages (fst (snd run11))) = \<lparr>role = ''user'', content = ''m2'', time = ''t''\<rparr>"
proof -
  have h: "length msgs11 = 11" by (simp add: msgs11_def)
  note r = eleven_asks_keep_last_ten_exchanges[OF h, of env_down world_init]
  have a: "length (messages (fst (snd run11))) = 20"
    unfolding run11_def by (rule r[THEN conjunct1])
  have "hd (messages (fst (snd run11))) =
      \<lparr>role = ''user'', content = msgs11 ! 1,
       time = now_isoformat env_down (clock_reads world_init + 2)\<rparr>"
    unfolding run11_def by (rule r[THEN conjunct2, THEN conjunct1])
  moreover have "msgs11 ! 1 = ''m2''" by (simp add: msgs11_def)
  moreover have "now_isoformat env_down (clock_reads world_init + 2) = ''t''"
    by (simp add: env_down_def)
  ultimately have b: "hd (messages (fst (snd run11))) =
      \<lparr>role = ''user'', content = ''m2'', time = ''t''\<rparr>"
    by (simp only:)
  show ?thesis
    using h a b by (intro conjI)
qed

text \<open>
  Counterexample to C1 as stated: after the same eleven calls the oldest surviving turn
  is not the agent reply of the second call.
\<close>

theorem oldest_turn_after_eleven_asks_is_not_agent_reply:
  "\<not> (role (hd (messages (fst (snd run11)))) = ''agent''
      \<and> content (hd (messages (fst (snd run11)))) = reply_text (fst run11 ! 1))"
proof -
  have "messages (fst (snd run11)) = keep_last 20 (transcript env_down 0 msgs11 (fst run11))"
    using ask_all_messages[of LLMCoordinator_init env_down msgs11 world_init]
    by (simp add: run11_def LLMCoordinator_init_def Memory_init_def world_init_def)
  also have "\<dots> = drop 2 (transcript env_down 0 msgs11 (fst run11))"
    by (simp add: keep_last_def length_transcript msgs11_def)
  finally have "role (hd (messages (fst (snd run11)))) = ''user''"
    by (simp add: transcript_def msgs11_def exchange_def upt_rec_numeral)
  then show ?thesis by simp
qed

subsection \<open>C2\<close>

text \<open>
  C2, as amended. For every memory, \<open>get_context\<close> returns the lines of the most recent
  five turns (of all turns when there are fewer), oldest first, each line being the role,
  a colon and a space, the content, and a newline after it: every line is ended by a
  newline, also the last one. For an empty memory it returns the empty string.
\<close>

theorem get_context_newline_terminated:
  "fst (get_context mem) =
     concat (map (\<lambda>m. role m @ '': '' @ content m @ ''\<newline>'')
       (drop (length (messages mem) - 5) (messages mem)))
   \<and> fst (get_context (mem\<lparr>messages := []\<rparr>)) = []"
  using slice_from_neg[of 5 "messages mem"]
  by (simp add: get_context_def get_context_loop_concat keep_last_def slice_from_def)

text \<open>
  Counterexample to C2 as stated: for a memory of one turn the result is not the lines
  joined by newlines, since it ends with a newline.
\<close>

theorem get_context_not_newline_joined:
  "fst (get_context mem_one) \<noteq> spec_get_context mem_one"
  by (simp add: get_context_def spec_get_context_def mem_one_def slice_from_def keep_last_def)

subsection \<open>C3\<close>

text \<open>
  C3. For every message, every state and every behaviour of the backend, of
  \<^verbatim>\<open>json.loads\<close> and of the clock, \<open>ask\<close> returns the dict with the three keys intent,
  urgency and reply, and its values are fixed by what the calls did: wherever the
  classification raises (the backend call, \<^verbatim>\<open>json.loads\<close>, either subscript) intent and
  urgency are "error" and "low", otherwise they are the two values of the parsed object;
  where the reply call raises the reply is \<open>fallback_reply\<close>, otherwise it is the text of
  the response. No exception of these calls ends the run: in every case both turns are
  added (the clock is read twice) and both requests reach the backend. So with a backend
  that raises on every call \<open>ask\<close> returns "error", "low" and \<open>fallback_reply\<close>.
\<close>

theorem ask_absorbs_backend_failures:
  "fst (ask e message (mem, w)) =
     (let cls =
            (case generate_content e (requests w) (classify_request message) of
               Inl ex \<Rightarrow> (JString ''error'', JString ''low'')
             | Inr body \<Rightarrow>
                 (case json_loads e body of
                    Inl ex \<Rightarrow> (JString ''error'', JString ''low'')
                  | Inr result \<Rightarrow>
                      (case getitem result ''intent'' of
                         Inl ex \<Rightarrow> (JString ''error'', JString ''low'')
                       | Inr i \<Rightarrow>
                           (case getitem result ''urgency'' of
                              Inl ex \<Rightarrow> (JString ''error'', JString ''low'')
                            | Inr u \<Rightarrow> (i, u)))));
          context = fst (get_context (fst (add e ''user'' message (mem, w))));
          reply =
            (case generate_content e (requests w @ [classify_request message])
                    (reply_request e (fst cls) (snd cls) context) of
               Inl ex \<Rightarrow> fallback_reply
             | Inr body \<Rightarrow> body)
      in [(''intent'', fst cls), (''urgency'', snd cls), (''reply'', JString reply)])
   \<and> clock_reads (snd (snd (ask e message (mem, w)))) = clock_reads w + 2
   \<and> length (requests (snd (snd (ask e message (mem, w))))) = length (requests w) + 2
   \<and> ((\<forall>h r. \<exists>ex. generate_content e h r = Inl ex) \<longrightarrow>
        fst (ask e message (mem, w)) =
          [(''intent'', JString ''error''), (''urgency'', JString ''low''),
           (''reply'', JString fallback_reply)])"
proof (intro conjI impI)
  have w1: "requests (snd (add e ''user'' message (mem, w))) = requests w"
    by (simp add: add_world)
  show "fst (ask e message (mem, w)) =
     (let cls =
            (case generate_content e (requests w) (classify_request message) of
               Inl ex \<Rightarrow> (JString ''error'', JString ''low'')
             | Inr body \<Rightarrow>
                 (case json_loads e body of
                    Inl ex \<Rightarrow> (JString ''error'', JString ''low'')
                  | Inr result \<Rightarrow>
                      (case getitem result ''intent'' of
                         Inl ex \<Rightarrow> (JString ''error'', JString ''low'')
                       | Inr i \<Rightarrow>
                           (case getitem result ''urgency'' of
                              Inl ex \<Rightarrow> (JString ''error'', JString ''low'')
                            | Inr u \<Rightarrow> (i, u)))));
          context = fst (get_context (fst (add e ''user'' message (mem, w))));
          reply =
            (case generate_content e (requests w @ [classify_request message])
                    (reply_request e (fst cls) (snd cls) context) of
               Inl ex \<Rightarrow> fallback_reply
             | Inr body \<Rightarrow> body)
      in [(''intent'', fst cls), (''urgency'', snd cls), (''reply'', JString reply)])"
    by (simp add: ask_steps Let_def)
      (auto simp: classify_def classify_try_def create_reply_def call_generate_content_def
        print_def w1 split: sum.splits)
next
  show "clock_reads (snd (snd (ask e message (mem, w)))) = clock_reads w + 2"
    by (simp add: ask_clock)
next
  show "length (requests (snd (snd (ask e message (mem, w))))) = length (requests w) + 2"
    by (simp add: ask_steps add_requests_pair create_reply_requests classify_requests)
next
  assume down: "\<forall>h r. \<exists>ex. generate_content e h r = Inl ex"
  have c: "fst (classify e message w') = (JString ''error'', JString ''low'')" for w'
  proof -
    from down obtain ex where
      "generate_content e (requests w') (classify_request message) = Inl ex"
      by blast
    then show ?thesis by (rule classify_raise)
  qed
  have r: "fst (create_reply e message i u c w') = fallback_reply" for i u c w'
  proof -
    from down obtain ex where
      "generate_content e (requests w') (reply_request e i u c) = Inl ex"
      by blast
    then show ?thesis by (simp add: create_reply_def call_generate_content_def)
  qed
  show "fst (ask e message (mem, w)) =
          [(''intent'', JString ''error''), (''urgency'', JString ''low''),
           (''reply'', JString fallback_reply)]"
    by (simp add: ask_steps c r)
qed

text \<open>
  Witness of C3: the backend raises on every call, and \<open>ask\<close> on the message "test"
  returns the degraded result.
\<close>

theorem ask_absorbs_backend_failures_witness:
  "(\<forall>h r. \<exists>ex. generate_content env_down h r = Inl ex)
   \<and> fst (ask env_down ''test'' (LLMCoordinator_init, world_init)) =
       [(''intent'', JString ''error''), (''urgency'', JString ''low''),
        (''reply'', JString fallback_reply)]"
  using ask_absorbs_backend_failures[of env_down "''test''" LLMCoordinator_init world_init,
      THEN conjunct2, THEN conjunct2, THEN conjunct2]
  by (simp add: env_down_def)

subsection \<open>C4\<close>

text \<open>
  C4 fails on a coordinator whose memory has \<open>max_history = 0\<close>: one call of \<open>ask\<close> from the
  empty memory leaves two turns, where the claim gives \<open>min (2 * 1) 0 = 0\<close>. The slice
  \<^verbatim>\<open>messages[-0:]\<close> is the whole list. For a bound of at least one the claim holds
  (\<open>ask_messages\<close>, \<open>ask_all_length_messages\<close>).
\<close>

theorem ask_max_history_zero_keeps_both_turns:
  "length (messages (fst (snd (ask env_down ''hi'' (mem_zero, world_init))))) = 2
   \<and> max_history (fst (snd (ask env_down ''hi'' (mem_zero, world_init)))) = 0"
  by (simp add: mem_zero_def env_down_def world_init_def ask_def add_def classify_def
      classify_try_def create_reply_def call_generate_content_def datetime_now_isoformat_def
      print_def get_context_def slice_from_def Let_def)

subsection \<open>C5\<close>

text \<open>
  C5 fails on \<^verbatim>\<open>Memory(max_history=0)\<close>: the empty memory is within its bound, and \<open>add\<close>
  leaves one turn in it, more than the bound, since \<^verbatim>\<open>messages[-0:]\<close> is the whole list.
  For a bound of at least one the claim holds (\<open>add_messages\<close>, \<open>add_invariant\<close>).
\<close>

theorem add_max_history_zero_keeps_turn:
  "int (length (messages mem_zero)) \<le> max_history mem_zero
   \<and> messages (fst (add env_down ''user'' ''hi'' (mem_zero, world_init))) =
       [\<lparr>role = ''user'', content = ''hi'', time = ''t''\<rparr>]
   \<and> max_history (fst (add env_down ''user'' ''hi'' (mem_zero, world_init))) = 0"
  by (simp add: mem_zero_def env_down_def world_init_def add_def datetime_now_isoformat_def
      slice_from_def Let_def)

subsection \<open>C6\<close>

text \<open>
  C6. Whenever the classification fails, \<open>classify\<close> returns the pair "error", "low" and
  raises nothing: when the backend call raises, when \<^verbatim>\<open>json.loads\<close> raises on the text of
  the response, when the parsed object lacks the key intent or the key urgency, and when
  the parsed value is not an object at all. So with a backend that raises on every call,
  \<open>classify\<close> returns that pair for every message and every state.
\<close>

theorem classify_failure_sentinel:
  "(generate_content e (requests w) (classify_request message) = Inl ex
      \<longrightarrow> fst (classify e message w) = (JString ''error'', JString ''low''))
   \<and> (generate_content e (requests w) (classify_request message) = Inr body
        \<and> json_loads e body = Inl ex
      \<longrightarrow> fst (classify e message w) = (JString ''error'', JString ''low''))
   \<and> (generate_content e (requests w) (classify_request message) = Inr body
        \<and> json_loads e body = Inr (JObject kvs)
        \<and> (map_of kvs ''intent'' = None \<or> map_of kvs ''urgency'' = None)
      \<longrightarrow> fst (classify e message w) = (JString ''error'', JString ''low''))
   \<and> (generate_content e (requests w) (classify_request message) = Inr body
        \<and> json_loads e body = Inr result \<and> (\<forall>kvs'. result \<noteq> JObject kvs')
      \<longrightarrow> fst (classify e message w) = (JString ''error'', JString ''low''))
   \<and> ((\<forall>h r. \<exists>ex'. generate_content e h r = Inl ex')
      \<longrightarrow> (\<forall>message' w'. fst (classify e message' w') = (JString ''error'', JString ''low'')))"
proof (intro conjI impI allI)
  assume "generate_content e (requests w) (classify_request message) = Inl ex"
  then show "fst (classify e message w) = (JString ''error'', JString ''low'')"
    by (rule classify_raise)
next
  assume "generate_content e (requests w) (classify_request message) = Inr body
    \<and> json_loads e body = Inl ex"
  then show "fst (classify e message w) = (JString ''error'', JString ''low'')"
    by (simp add: classify_bad_json)
next
  assume a: "generate_content e (requests w) (classify_request message) = Inr body
    \<and> json_loads e body = Inr (JObject kvs)
    \<and> (map_of kvs ''intent'' = None \<or> map_of kvs ''urgency'' = None)"
  then have "getitem (JObject kvs) ''intent'' = Inl (KeyError ''intent'')
      \<or> getitem (JObject kvs) ''urgency'' = Inl (KeyError ''urgency'')"
    by auto
  then show "fst (classify e message w) = (JString ''error'', JString ''low'')"
    using a classify_getitem_fails[of e w message body "JObject kvs" "KeyError ''intent''"]
      classify_getitem_fails[of e w message body "JObject kvs" "KeyError ''urgency''"]
    by blast
next
  assume a: "generate_content e (requests w) (classify_request message) = Inr body
    \<and> json_loads e body = Inr result \<and> (\<forall>kvs'. result \<noteq> JObject kvs')"
  then have "getitem result ''intent'' = Inl (TypeError result)"
    by (cases result) auto
  then show "fst (classify e message w) = (JString ''error'', JString ''low'')"
    using a classify_getitem_fails[of e w message body result "TypeError result"] by blast
next
  fix message' :: string and w' :: world
  assume "\<forall>h r. \<exists>ex'. generate_content e h r = Inl ex'"
  then obtain ex' where
    "generate_content e (requests w') (classify_request message') = Inl ex'"
    by blast
  then show "fst (classify e message' w') = (JString ''error'', JString ''low'')"
    by (rule classify_raise)
qed

text \<open>
  Witness of C6: a backend that raises, a response that is not JSON, an object without
  the key urgency, a value that is not an object, and the backend that always raises
  asked about another message.
\<close>

theorem classify_failure_sentinel_witness:
  "fst (classify env_down ''hi'' world_init) = (JString ''error'', JString ''low'')
   \<and> fst (classify env_bad_json ''hi'' world_init) = (JString ''error'', JString ''low'')
   \<and> fst (classify env_no_urgency ''hi'' world_init) = (JString ''error'', JString ''low'')
   \<and> fst (classify env_not_dict ''hi'' world_init) = (JString ''error'', JString ''low'')
   \<and> fst (classify env_down ''refund please'' world_init) = (JString ''error'', JString ''low'')"
  using classify_failure_sentinel[of env_down world_init "''hi''" "Raised ''unavailable''"]
    classify_failure_sentinel[of env_bad_json world_init "''hi''" "Raised ''not JSON''" "''ok''"]
    classify_failure_sentinel[of env_no_urgency world_init "''hi''" _ "''ok''"
      "[(''intent'', JString ''billing'')]"]
    classify_failure_sentinel[of env_not_dict world_init "''hi''" _ "''ok''" _ "JArray []"]
  by (simp add: env_down_def env_ok_def env_bad_json_def env_no_urgency_def env_not_dict_def)

subsection \<open>C7\<close>

text \<open>
  C7. When the backend call of \<open>create_reply\<close> returns, the reply is the text of the
  response, unchanged; when it raises, the reply is \<open>fallback_reply\<close>, one string that
  depends on no argument, and nothing is raised.
\<close>

theorem create_reply_verbatim_or_fallback:
  "(generate_content e (requests w) (reply_request e intent urgency context) = Inr body
      \<longrightarrow> fst (create_reply e message intent urgency context w) = body)
   \<and> (generate_content e (requests w) (reply_request e intent urgency context) = Inl ex
      \<longrightarrow> fst (create_reply e message intent urgency context w) = fallback_reply)"
  by (simp add: create_reply_def call_generate_content_def)

text \<open>Witness of C7: a backend that answers "ok", and one that raises.\<close>

theorem create_reply_verbatim_or_fallback_witness:
  "fst (create_reply env_ok ''hi'' (JString ''billing'') (JString ''low'') ''user: hi''
        world_init) = ''ok''
   \<and> fst (create_reply env_down ''hi'' (JString ''billing'') (JString ''low'') ''user: hi''
        world_init) = fallback_reply"
  using create_reply_verbatim_or_fallback[of env_ok world_init "JString ''billing''"
        "JString ''low''" "''user: hi''" "''ok''" "''hi''"]
    create_reply_verbatim_or_fallback[of env_down world_init "JString ''billing''"
        "JString ''low''" "''user: hi''" _ "''hi''" "Raised ''unavailable''"]
  by (simp add: env_ok_def env_down_def)

subsection \<open>C8\<close>

text \<open>
  C8. In every call of \<open>ask\<close> the reply is what \<open>create_reply\<close> returns for the context
  that \<open>get_context\<close> gives on the memory left by adding the user turn, with the intent and
  urgency that \<open>classify\<close> returned. The backend receives the classification request
  first and then the reply request built from that context. For a bound that is not
  negative this context ends with the line of the message just added, and for a bound of
  at least five it is the rendering of the last five turns of the earlier history
  followed by the new user turn.
\<close>

theorem ask_context_after_user_turn:
  "reply_text (fst (ask e message (mem, w))) =
     fst (create_reply e message
       (fst (fst (classify e message (snd (add e ''user'' message (mem, w))))))
       (snd (fst (classify e message (snd (add e ''user'' message (mem, w))))))
       (fst (get_context (fst (add e ''user'' message (mem, w)))))
       (snd (classify e message (snd (add e ''user'' message (mem, w))))))
   \<and> requests (snd (snd (ask e message (mem, w)))) =
       requests w @
       [classify_request message,
        reply_request e
          (fst (fst (classify e message (snd (add e ''user'' message (mem, w))))))
          (snd (fst (classify e message (snd (add e ''user'' message (mem, w))))))
          (fst (get_context (fst (add e ''user'' message (mem, w)))))]
   \<and> (0 \<le> max_history mem \<longrightarrow>
        suffix (''user: '' @ message @ ''\<newline>'')
          (fst (get_context (fst (add e ''user'' message (mem, w))))))
   \<and> (5 \<le> max_history mem \<longrightarrow>
        fst (get_context (fst (add e ''user'' message (mem, w)))) =
          concat (map (\<lambda>m. role m @ '': '' @ content m @ ''\<newline>'')
            (keep_last 5 (messages mem @
               [\<lparr>role = ''user'', content = message,
                 time = now_isoformat e (clock_reads w)\<rparr>]))))"
proof (intro conjI impI)
  show "reply_text (fst (ask e message (mem, w))) =
     fst (create_reply e message
       (fst (fst (classify e message (snd (add e ''user'' message (mem, w))))))
       (snd (fst (classify e message (snd (add e ''user'' message (mem, w))))))
       (fst (get_context (fst (add e ''user'' message (mem, w)))))
       (snd (classify e message (snd (add e ''user'' message (mem, w))))))"
    by (simp add: ask_steps reply_text_def)
next
  show "requests (snd (snd (ask e message (mem, w)))) =
       requests w @
       [classify_request message,
        reply_request e
          (fst (fst (classify e message (snd (add e ''user'' message (mem, w))))))
          (snd (fst (classify e message (snd (add e ''user'' message (mem, w))))))
          (fst (get_context (fst (add e ''user'' message (mem, w)))))]"
    by (simp add: ask_steps add_requests_pair create_reply_requests classify_requests)
next
  assume "0 \<le> max_history mem"
  then obtain older where
    "messages (fst (add e ''user'' message (mem, w))) =
       older @ [\<lparr>role = ''user'', content = message, time = now_isoformat e (clock_reads w)\<rparr>]"
    using add_keeps_new_turn[of mem e "''user''" message w] by blast
  then show "suffix (''user: '' @ message @ ''\<newline>'')
      (fst (get_context (fst (add e ''user'' message (mem, w)))))"
    by (simp add: get_context_render keep_last_append_short suffix_def)
next
  assume mh: "5 \<le> max_history mem"
  then have "messages (fst (add e ''user'' message (mem, w))) =
      keep_last (nat (max_history mem)) (messages mem @
        [\<lparr>role = ''user'', content = message, time = now_isoformat e (clock_reads w)\<rparr>])"
    by (simp add: add_messages)
  moreover have "keep_last 5 (keep_last (nat (max_history mem)) xs) = keep_last 5 xs"
    for xs :: "turn list"
    using mh by (auto simp: keep_last_def intro!: arg_cong2[where f = drop])
  ultimately show "fst (get_context (fst (add e ''user'' message (mem, w)))) =
      concat (map (\<lambda>m. role m @ '': '' @ content m @ ''\<newline>'')
        (keep_last 5 (messages mem @
           [\<lparr>role = ''user'', content = message,
             time = now_isoformat e (clock_reads w)\<rparr>])))"
    by (simp add: get_context_render)
qed

text \<open>
  Witness of C8: the first message to a fresh coordinator whose backend is down. The
  context is the line of that message, and the backend was sent the classification
  request and then the reply request with that context and the pair "error", "low".
\<close>

theorem ask_context_after_user_turn_witness:
  "0 \<le> max_history LLMCoordinator_init \<and> 5 \<le> max_history LLMCoordinator_init
   \<and> fst (get_context (fst (add env_down ''user'' ''hi'' (LLMCoordinator_init, world_init)))) =
       ''user: hi\<newline>''
   \<and> requests (snd (snd (ask env_down ''hi'' (LLMCoordinator_init, world_init)))) =
       [classify_request ''hi'',
        reply_request env_down (JString ''error'') (JString ''low'') ''user: hi\<newline>'']"
proof -
  have b: "0 \<le> max_history LLMCoordinator_init" "5 \<le> max_history LLMCoordinator_init"
    by (simp_all add: LLMCoordinator_init_def Memory_init_def)
  note r = ask_context_after_user_turn[of env_down "''hi''" LLMCoordinator_init world_init]
  have c: "fst (get_context (fst (add env_down ''user'' ''hi''
      (LLMCoordinator_init, world_init)))) = ''user: hi\<newline>''"
    using r b by (simp add: LLMCoordinator_init_def Memory_init_def keep_last_def)
  have w0: "requests world_init = []"
    by (simp add: world_init_def)
  have "fst (classify env_down ''hi'' (snd (add env_down ''user'' ''hi''
      (LLMCoordinator_init, world_init)))) = (JString ''error'', JString ''low'')"
    by (rule classify_raise[where ex = "Raised ''unavailable''"]) (simp add: env_down_def)
  then have "requests (snd (snd (ask env_down ''hi'' (LLMCoordinator_init, world_init)))) =
       [classify_request ''hi'',
        reply_request env_down (JString ''error'') (JString ''low'') ''user: hi\<newline>'']"
    using r[THEN conjunct2, THEN conjunct1] w0 by (simp add: c)
  then show ?thesis
    using b c by simp
qed

subsection \<open>C9\<close>

text \<open>
  C9. \<open>get_context\<close> leaves the memory as it found it: the turns and the bound are
  unchanged.
\<close>

theorem get_context_pure_read: "snd (get_context mem) = mem"
  by (simp add: get_context_def)

subsection \<open>C10\<close>

text \<open>
  C10. With a bound of at least two, after \<open>ask\<close> the last two turns of the memory are
  the user turn holding the message and the agent turn holding the reply that \<open>ask\<close>
  returned; and the result holds, under intent and urgency, the pair that \<open>classify\<close>
  returned for the message, and under reply the content of the last turn of the memory.
\<close>

theorem ask_result_matches_memory:
  assumes mh: "2 \<le> max_history mem"
  shows "2 \<le> length (messages (fst (snd (ask e message (mem, w)))))
   \<and> drop (length (messages (fst (snd (ask e message (mem, w))))) - 2)
        (messages (fst (snd (ask e message (mem, w))))) =
       [\<lparr>role = ''user'', content = message, time = now_isoformat e (clock_reads w)\<rparr>,
        \<lparr>role = ''agent'', content = reply_text (fst (ask e message (mem, w))),
         time = now_isoformat e (Suc (clock_reads w))\<rparr>]
   \<and> fst (ask e message (mem, w)) =
       [(''intent'', fst (fst (classify e message (snd (add e ''user'' message (mem, w)))))),
        (''urgency'', snd (fst (classify e message (snd (add e ''user'' message (mem, w)))))),
        (''reply'', JString (content (last (messages (fst (snd (ask e message (mem, w))))))))]"
proof -
  define u where
    "u = \<lparr>role = ''user'', content = message, time = now_isoformat e (clock_reads w)\<rparr>"
  define a where
    "a = \<lparr>role = ''agent'', content = reply_text (fst (ask e message (mem, w))),
         time = now_isoformat e (Suc (clock_reads w))\<rparr>"
  have "messages (fst (snd (ask e message (mem, w)))) =
      keep_last (nat (max_history mem)) (messages mem @ [u, a])"
    using ask_messages[of mem e message w] mh by (simp add: u_def a_def)
  also have "\<dots> = keep_last (nat (max_history mem) - 2) (messages mem) @ [u, a]"
    using mh keep_last_append_short[of "[u, a]" "nat (max_history mem)" "messages mem"]
    by (simp add: numeral_2_eq_2)
  finally have eq: "messages (fst (snd (ask e message (mem, w)))) =
      keep_last (nat (max_history mem) - 2) (messages mem) @ [u, a]" .
  have "content (last (messages (fst (snd (ask e message (mem, w)))))) =
      reply_text (fst (ask e message (mem, w)))"
    by (simp add: eq) (simp add: a_def)
  then show ?thesis
    using ask_output[of e message mem w] by (simp add: eq) (simp add: u_def a_def)
qed

text \<open>
  Witness of C10: the first message to a fresh coordinator whose backend answers "ok"
  and classifies as general_help, low.
\<close>

theorem ask_result_matches_memory_witness:
  "2 \<le> max_history LLMCoordinator_init
   \<and> drop (length (messages (fst (snd (ask env_ok ''hi'' (LLMCoordinator_init, world_init))))) - 2)
        (messages (fst (snd (ask env_ok ''hi'' (LLMCoordinator_init, world_init))))) =
       [\<lparr>role = ''user'', content = ''hi'', time = ''t''\<rparr>,
        \<lparr>role = ''agent'', content = ''ok'', time = ''t''\<rparr>]
   \<and> fst (ask env_ok ''hi'' (LLMCoordinator_init, world_init)) =
       [(''intent'', JString ''general_help''), (''urgency'', JString ''low''),
        (''reply'', JString ''ok'')]"
proof -
  define final where
    "final = messages (fst (snd (ask env_ok ''hi'' (LLMCoordinator_init, world_init))))"
  have b: "2 \<le> max_history LLMCoordinator_init"
    by (simp add: LLMCoordinator_init_def Memory_init_def)
  note r = ask_result_matches_memory[OF b, of env_ok "''hi''" world_init, folded final_def]
  have cls: "fst (classify env_ok ''hi'' (snd (add env_ok ''user'' ''hi''
      (LLMCoordinator_init, world_init)))) = (JString ''general_help'', JString ''low'')"
    by (rule classify_success[where body = "''ok''" and kvs =
          "[(''intent'', JString ''general_help''), (''urgency'', JString ''low'')]"])
      (simp_all add: env_ok_def)
  have rt: "reply_text (fst (ask env_ok ''hi'' (LLMCoordinator_init, world_init))) = ''ok''"
    by (simp add: ask_steps reply_text_def create_reply_def call_generate_content_def
        env_ok_def)
  have tm: "now_isoformat env_ok n = ''t''" for n
    by (simp add: env_ok_def)
  have d: "drop (length final - 2) final =
      [\<lparr>role = ''user'', content = ''hi'', time = ''t''\<rparr>,
       \<lparr>role = ''agent'', content = ''ok'', time = ''t''\<rparr>]"
    using r[THEN conjunct2, THEN conjunct1] by (simp add: rt tm)
  have "last final = last (drop (length final - 2) final)"
    using r[THEN conjunct1] by (simp add: last_drop)
  then have l: "content (last final) = ''ok''"
    by (simp add: d)
  have "fst (ask env_ok ''hi'' (LLMCoordinator_init, world_init)) =
      [(''intent'', JString ''general_help''), (''urgency'', JString ''low''),
       (''reply'', JString ''ok'')]"
    using r[THEN conjunct2, THEN conjunct2] by (simp add: cls l)
  then show ?thesis
    using b d unfolding final_def by simp
qed

end
